theory Spec2Isabelle
  imports Complex_Main "HOL-Library.Char_ord" "HOL-Library.List_Lexorder"
begin

section \<open>Numbers and errors\<close>

text \<open>
  The pipelines compute with Python and NumPy floating-point numbers. A float is modelled
  as a real number or one of the three special values; rounding is not modelled (finite
  results are exact reals) and the two zeros are not distinguished. What is modelled is
  where a computation leaves the finite numbers and where it raises, the range of a
  float included where a division of Python numbers depends on it.
\<close>

datatype flt = Fin real | PInf | NInf | NaN

datatype error = ValueError | ZeroDivisionError | OverflowError

fun fneg :: "flt \<Rightarrow> flt" where
  "fneg (Fin x) = Fin (- x)"
| "fneg PInf = NInf"
| "fneg NInf = PInf"
| "fneg NaN = NaN"

fun fadd :: "flt \<Rightarrow> flt \<Rightarrow> flt" where
  "fadd (Fin x) (Fin y) = Fin (x + y)"
| "fadd NaN _ = NaN"
| "fadd _ NaN = NaN"
| "fadd PInf NInf = NaN"
| "fadd NInf PInf = NaN"
| "fadd PInf _ = PInf"
| "fadd _ PInf = PInf"
| "fadd NInf _ = NInf"
| "fadd _ NInf = NInf"

definition fsub :: "flt \<Rightarrow> flt \<Rightarrow> flt" where
  "fsub x y = fadd x (fneg y)"

text \<open>The sign of a float as NumPy's \<open>sign\<close> gives it: -1, 0 or 1, and NaN for NaN.\<close>

fun fsign :: "flt \<Rightarrow> flt" where
  "fsign (Fin x) = Fin (sgn x)"
| "fsign PInf = Fin 1"
| "fsign NInf = Fin (- 1)"
| "fsign NaN = NaN"

fun fabs :: "flt \<Rightarrow> flt" where
  "fabs (Fin x) = Fin \<bar>x\<bar>"
| "fabs PInf = PInf"
| "fabs NInf = PInf"
| "fabs NaN = NaN"

fun fmul :: "flt \<Rightarrow> flt \<Rightarrow> flt" where
  "fmul (Fin x) (Fin y) = Fin (x * y)"
| "fmul NaN _ = NaN"
| "fmul _ NaN = NaN"
| "fmul (Fin x) y = (if x = 0 then NaN else if 0 < x then y else fneg y)"
| "fmul x (Fin y) = (if y = 0 then NaN else if 0 < y then x else fneg x)"
| "fmul PInf y = y"
| "fmul NInf y = fneg y"

text \<open>
  IEEE division, as NumPy scalars and arrays divide: a zero divisor gives an infinity
  or NaN (with a warning), never an exception.
\<close>

fun fdiv :: "flt \<Rightarrow> flt \<Rightarrow> flt" where
  "fdiv (Fin x) (Fin y) =
     (if y = 0 then (if x = 0 then NaN else if 0 < x then PInf else NInf) else Fin (x / y))"
| "fdiv NaN _ = NaN"
| "fdiv _ NaN = NaN"
| "fdiv (Fin x) _ = Fin 0"
| "fdiv PInf (Fin y) = (if 0 \<le> y then PInf else NInf)"
| "fdiv NInf (Fin y) = (if 0 \<le> y then NInf else PInf)"
| "fdiv _ _ = NaN"

text \<open>\<open>numpy.minimum\<close>: the smaller of the two, NaN when either is NaN.\<close>

fun fminimum :: "flt \<Rightarrow> flt \<Rightarrow> flt" where
  "fminimum (Fin x) (Fin y) = Fin (min x y)"
| "fminimum NaN _ = NaN"
| "fminimum _ NaN = NaN"
| "fminimum NInf _ = NInf"
| "fminimum _ NInf = NInf"
| "fminimum PInf y = y"
| "fminimum x PInf = x"

text \<open>Comparison \<open><\<close> of floats: False whenever NaN is involved.\<close>

fun fless :: "flt \<Rightarrow> flt \<Rightarrow> bool" where
  "fless (Fin x) (Fin y) = (x < y)"
| "fless NaN _ = False"
| "fless _ NaN = False"
| "fless NInf y = (y \<noteq> NInf)"
| "fless x PInf = (x \<noteq> PInf)"
| "fless _ _ = False"



text \<open>\<open>numpy.sqrt\<close> and \<open>numpy.arcsin\<close>: NaN (with a warning) outside the domain.\<close>

fun np_sqrt :: "flt \<Rightarrow> flt" where
  "np_sqrt (Fin x) = (if x < 0 then NaN else Fin (sqrt x))"
| "np_sqrt PInf = PInf"
| "np_sqrt _ = NaN"

fun np_arcsin :: "flt \<Rightarrow> flt" where
  "np_arcsin (Fin x) = (if - 1 \<le> x \<and> x \<le> 1 then Fin (arcsin x) else NaN)"
| "np_arcsin _ = NaN"

section \<open>The contingency table and the chi-square test\<close>

text \<open>
  A row of the A/B-test table, with the two columns the analysis reads (\<open>group\<close> and
  \<open>clicked\<close>); the data frame is the list of its rows, which may carry more columns.
\<close>

record observation =
  group :: string
  clicked :: int

type_synonym 'a dataframe = "'a observation_scheme list"

text \<open>
  \<open>pandas.crosstab(df['group'], df['clicked'])\<close>: one row for each group label that
  occurs, one column for each value of \<open>clicked\<close> that occurs, both sorted; each cell
  counts the observations with that label and that value.
\<close>

definition crosstab :: "'a dataframe \<Rightarrow> int list list" where
  "crosstab df =
     (let index = sort (remdups (map group df));
          columns = sort (remdups (map clicked df))
      in map (\<lambda>g. map (\<lambda>c. int (length (filter (\<lambda>r. group r = g \<and> clicked r = c) df)))
                        columns) index)"

text \<open>
  \<open>scipy.stats.chi2_contingency(observed)\<close> on a two-dimensional table, called by the
  source with its default arguments, so with \<open>correction=True\<close>: when the table has
  one degree of freedom, each observed count is moved towards its expected frequency by
  \<open>min(0.5, |expected - observed|)\<close> before the statistic is summed (Yates' correction,
  as current SciPy caps it at the difference). The function raises \<open>ValueError\<close> for a
  negative count, for an empty table, and when an expected frequency
  \<open>row_total * column_total / grand_total\<close> is zero; a table of zeros only has NaN for
  every expected frequency (0/0) and passes that check. With no degree of freedom the
  statistic is 0 and the p-value 1. The table is a list of rows of equal length. The
  survival function of the chi-square distribution, \<open>chi2.sf\<close>, is the parameter \<open>sf\<close>.
\<close>

definition margins :: "int list list \<Rightarrow> int list \<times> int list" where
  "margins observed =
     (map sum_list observed,
      map (\<lambda>j. sum_list (map (\<lambda>row. row ! j) observed))
          [0 ..< (case observed of [] \<Rightarrow> 0 | row # _ \<Rightarrow> length row)])"

definition expected_freq :: "int list list \<Rightarrow> flt list list" where
  "expected_freq observed =
     (case margins observed of (rs, cs) \<Rightarrow>
        map (\<lambda>r. map (\<lambda>c. fdiv (Fin (of_int (r * c))) (Fin (of_int (sum_list rs)))) cs) rs)"

definition yates :: "flt \<Rightarrow> flt \<Rightarrow> flt" where
  "yates obs ex =
     (let diff = fsub ex obs;
          direction = fsign diff;
          magnitude = fminimum (Fin (1 / 2)) (fabs diff)
      in fadd obs (fmul magnitude direction))"

definition power_divergence :: "flt list list \<Rightarrow> flt list list \<Rightarrow> flt" where
  "power_divergence f_obs f_exp =
     foldl fadd (Fin 0)
       (concat (map2 (map2 (\<lambda>obs ex. fdiv (fmul (fsub obs ex) (fsub obs ex)) ex)) f_obs f_exp))"

fun lift_sf :: "(real \<Rightarrow> nat \<Rightarrow> real) \<Rightarrow> flt \<Rightarrow> nat \<Rightarrow> flt" where
  "lift_sf sf (Fin x) k = Fin (sf x k)"
| "lift_sf sf PInf k = Fin 0"
| "lift_sf sf NInf k = Fin 1"
| "lift_sf sf NaN k = NaN"

definition chi2_contingency ::
  "(real \<Rightarrow> nat \<Rightarrow> real) \<Rightarrow> int list list \<Rightarrow> error + (flt \<times> flt \<times> nat \<times> flt list list)" where
  "chi2_contingency sf observed =
     (if \<exists>row \<in> set observed. \<exists>x \<in> set row. x < 0 then Inl ValueError
      else if concat observed = [] then Inl ValueError
      else
        let expected = expected_freq observed in
        if \<exists>row \<in> set expected. \<exists>e \<in> set row. e = Fin 0 then Inl ValueError
        else
          let nrows = length observed;
              ncols = length (hd observed);
              dof = nat (int (nrows * ncols) - int (nrows + ncols) + 2 - 1)
          in if dof = 0 then Inr (Fin 0, Fin 1, dof, expected)
             else
               let obs = map (map (\<lambda>x. Fin (of_int x))) observed;
                   obs' = (if dof = 1 then map2 (map2 yates) obs expected else obs);
                   chi2 = power_divergence obs' expected
               in Inr (chi2, lift_sf sf chi2 dof, dof, expected))"

record chi2_result =
  chi2_statistic :: flt
  p_value :: flt
  degrees_of_freedom :: nat
  expected_frequencies :: "flt list list"

definition chi_square_test ::
  "(real \<Rightarrow> nat \<Rightarrow> real) \<Rightarrow> 'a dataframe \<Rightarrow> error + chi2_result" where
  "chi_square_test sf df =
     (let contingency_table = crosstab df in
      case chi2_contingency sf contingency_table of
        Inl e \<Rightarrow> Inl e
      | Inr (chi2, p, dof, expected) \<Rightarrow>
          Inr \<lparr>chi2_statistic = chi2, p_value = p, degrees_of_freedom = dof,
               expected_frequencies = expected\<rparr>)"

text \<open>
  The two statistics on a table with rows \<open>[a, b]\<close> and \<open>[c, d]\<close>, written from their
  textbook formulas: Pearson's, as the specification words it, and the one with Yates'
  correction for continuity.
\<close>

definition expected_cells :: "int \<Rightarrow> int \<Rightarrow> int \<Rightarrow> int \<Rightarrow> (real \<times> real) list" where
  "expected_cells a b c d =
     (let n = real_of_int (a + b + c + d) in
      [(real_of_int a, real_of_int ((a + b) * (a + c)) / n),
       (real_of_int b, real_of_int ((a + b) * (b + d)) / n),
       (real_of_int c, real_of_int ((c + d) * (a + c)) / n),
       (real_of_int d, real_of_int ((c + d) * (b + d)) / n)])"

definition pearson_statistic :: "int \<Rightarrow> int \<Rightarrow> int \<Rightarrow> int \<Rightarrow> real" where
  "pearson_statistic a b c d =
     sum_list (map (\<lambda>(obs, ex). (obs - ex)\<^sup>2 / ex) (expected_cells a b c d))"

definition yates_statistic :: "int \<Rightarrow> int \<Rightarrow> int \<Rightarrow> int \<Rightarrow> real" where
  "yates_statistic a b c d =
     sum_list (map (\<lambda>(obs, ex). (\<bar>obs - ex\<bar> - min (1 / 2) \<bar>obs - ex\<bar>)\<^sup>2 / ex)
                   (expected_cells a b c d))"

text \<open>
  A step function standing in for \<open>chi2.sf\<close> where an example needs a concrete survival
  function: upper bounds at the usual critical values for one degree of freedom.
\<close>

definition sf_table :: "real \<Rightarrow> nat \<Rightarrow> real" where
  "sf_table x k =
     (if x < 3841 / 1000 then 1 else if x < 6635 / 1000 then 5 / 100 else 1 / 100)"

section \<open>The confidence interval\<close>

text \<open>
  The arguments of \<open>calculate_confidence_interval\<close> are Python integers, Python floats
  or NumPy scalars, and they divide differently. Python's \<open>/\<close> raises
  \<open>ZeroDivisionError\<close> on a zero divisor and \<open>OverflowError\<close> when an integer operand,
  or the quotient of two integers, is beyond the range of a float; NumPy's gives an
  infinity or NaN on a zero divisor. \<open>comprehensive_analysis\<close> and
  \<open>plot_confidence_intervals\<close> pass NumPy integers for the click counts
  (\<open>Series.sum()\<close>) and Python integers for the totals (\<open>len\<close>). A number carries its
  kind; an operation between a Python number and a NumPy scalar is NumPy's, and one
  between a Python integer and a Python float is a float's.
\<close>

datatype kind = PyInt | PyFloat | Np

type_synonym num = "kind \<times> flt"

definition py_int :: "int \<Rightarrow> num" where
  "py_int i = (PyInt, Fin (of_int i))"

definition np_int :: "int \<Rightarrow> num" where
  "np_int i = (Np, Fin (of_int i))"

definition join :: "kind \<Rightarrow> kind \<Rightarrow> kind" where
  "join k1 k2 =
     (if k1 = Np \<or> k2 = Np then Np else if k1 = PyInt \<and> k2 = PyInt then PyInt else PyFloat)"

definition nsub :: "num \<Rightarrow> num \<Rightarrow> num" where
  "nsub x y = (join (fst x) (fst y), fsub (snd x) (snd y))"

definition nadd :: "num \<Rightarrow> num \<Rightarrow> num" where
  "nadd x y = (join (fst x) (fst y), fadd (snd x) (snd y))"

definition nmul :: "num \<Rightarrow> num \<Rightarrow> num" where
  "nmul x y = (join (fst x) (fst y), fmul (snd x) (snd y))"

text \<open>
  The range of a float (an IEEE double). A magnitude of \<open>2^1024 - 2^970\<close> or more does
  not round to a finite double: converting such an integer raises \<open>OverflowError\<close>. A
  quotient of two integers of magnitude \<open>2^-1075\<close> or less rounds to zero. These two are
  the roundings that decide whether the function raises; no other rounding is modelled.
\<close>

definition dbl_overflow :: real where
  "dbl_overflow = 2 ^ 1024 - 2 ^ 970"

definition dbl_underflow :: real where
  "dbl_underflow = 1 / 2 ^ 1075"

fun too_large :: "flt \<Rightarrow> bool" where
  "too_large (Fin x) = (dbl_overflow \<le> \<bar>x\<bar>)"
| "too_large _ = False"

fun rounds_to_zero :: "flt \<Rightarrow> bool" where
  "rounds_to_zero (Fin x) = (\<bar>x\<bar> \<le> dbl_underflow)"
| "rounds_to_zero _ = False"

text \<open>
  The division \<open>x / y\<close>. Two Python integers: a zero divisor is refused first, then
  a quotient too large for a float. Otherwise every Python integer operand is converted
  to a float first, by Python or by NumPy, and one beyond the range is refused; then
  NumPy divides as IEEE does, and Python refuses a zero divisor.
\<close>

definition truediv :: "num \<Rightarrow> num \<Rightarrow> error + num" where
  "truediv x y =
     (if fst x = PyInt \<and> fst y = PyInt then
        (if snd y = Fin 0 then Inl ZeroDivisionError
         else if too_large (fdiv (snd x) (snd y)) then Inl OverflowError
         else if rounds_to_zero (fdiv (snd x) (snd y)) then Inr (PyFloat, Fin 0)
         else Inr (PyFloat, fdiv (snd x) (snd y)))
      else if (fst x = PyInt \<and> too_large (snd x)) \<or> (fst y = PyInt \<and> too_large (snd y))
        then Inl OverflowError
      else if fst x = Np \<or> fst y = Np then Inr (Np, fdiv (snd x) (snd y))
      else if snd y = Fin 0 then Inl ZeroDivisionError
      else Inr (PyFloat, fdiv (snd x) (snd y)))"

text \<open>The kind of a quotient: NumPy's if an operand is, a Python float otherwise.\<close>

definition quot_kind :: "kind \<Rightarrow> kind \<Rightarrow> kind" where
  "quot_kind k1 k2 = (if k1 = Np \<or> k2 = Np then Np else PyFloat)"

text \<open>The integers of the 64-bit range: the values of a NumPy integer and of a length.\<close>

definition int64 :: "int \<Rightarrow> bool" where
  "int64 i = (- (2 ^ 63) \<le> i \<and> i < 2 ^ 63)"

definition and_then :: "error + 'a \<Rightarrow> ('a \<Rightarrow> error + 'b) \<Rightarrow> error + 'b" where
  "and_then r f = (case r of Inl e \<Rightarrow> Inl e | Inr x \<Rightarrow> f x)"

record interval_estimate =
  difference :: flt
  ci_lower :: flt
  ci_upper :: flt
  margin_of_error :: flt
  relative_improvement :: flt

text \<open>
  \<open>ppf\<close> is \<open>scipy.stats.norm.ppf\<close>, the quantile function of the standard normal
  distribution, taken as a parameter; \<open>alpha\<close> is a finite Python float. \<open>numpy.sqrt\<close>
  and \<open>ppf\<close> return NumPy floats, so everything computed from them is NumPy's.
\<close>

definition calculate_confidence_interval ::
  "(real \<Rightarrow> flt) \<Rightarrow> num \<Rightarrow> num \<Rightarrow> num \<Rightarrow> num \<Rightarrow> real \<Rightarrow> error + interval_estimate" where
  "calculate_confidence_interval ppf clicks_a total_a clicks_b total_b alpha =
     and_then (truediv clicks_a total_a) (\<lambda>p_a.
     and_then (truediv clicks_b total_b) (\<lambda>p_b.
     let diff = nsub p_b p_a in
     and_then (truediv (nmul p_a (nsub (py_int 1) p_a)) total_a) (\<lambda>var_a.
     and_then (truediv (nmul p_b (nsub (py_int 1) p_b)) total_b) (\<lambda>var_b.
     let se = np_sqrt (snd (nadd var_a var_b));
         z_score = ppf (1 - alpha / 2);
         margin_of_error = fmul z_score se;
         ci_lower = fsub (snd diff) margin_of_error;
         ci_upper = fadd (snd diff) margin_of_error
     in and_then (truediv (nsub p_b p_a) p_a) (\<lambda>rel.
          Inr \<lparr>difference = snd diff, ci_lower = ci_lower, ci_upper = ci_upper,
               margin_of_error = margin_of_error, relative_improvement = snd rel\<rparr>)))))"


text \<open>
  A table standing in for \<open>norm.ppf\<close> where an example needs a concrete quantile
  function: the two-sided 95 and 99 per cent points, the median, and the values at and
  outside the ends of the unit interval.
\<close>

definition ppf_table :: "real \<Rightarrow> flt" where
  "ppf_table q =
     (if q < 0 \<or> 1 < q then NaN else if q = 0 then NInf else if q = 1 then PInf
      else if q = 975 / 1000 then Fin (196 / 100) else if q = 995 / 1000 then Fin (2576 / 1000)
      else Fin 0)"

section \<open>The effect size\<close>

definition calculate_effect_size :: "flt \<Rightarrow> flt \<Rightarrow> flt" where
  "calculate_effect_size control_ctr treatment_ctr =
     (let h = fmul (Fin 2) (fsub (np_arcsin (np_sqrt treatment_ctr))
                                 (np_arcsin (np_sqrt control_ctr)))
      in fabs h)"

section \<open>The click rates of the groups\<close>

text \<open>
  \<open>df.groupby('group')['clicked'].agg(count, sum, mean).round(4)\<close>: one row for each
  group label that occurs, sorted by label. Rounding to four decimals is half to even
  and leaves the two integer columns as they are. It is applied here to the exact mean;
  NumPy rounds the binary float nearest to the mean, so at a decimal tie that no float
  holds exactly the two can differ in the last digit (3/20000 is rounded to 0.0002 here
  and to 0.0001 by NumPy).
\<close>

definition rint :: "real \<Rightarrow> int" where
  "rint x =
     (let f = \<lfloor>x\<rfloor>; r = x - of_int f
      in if r < 1 / 2 then f else if 1 / 2 < r then f + 1 else if even f then f else f + 1)"

definition round4 :: "real \<Rightarrow> real" where
  "round4 x = of_int (rint (x * 10 ^ 4)) / 10 ^ 4"

record group_summary =
  count :: int
  clicks :: int
  ctr :: real

definition calculate_click_rates :: "'a dataframe \<Rightarrow> (string \<times> group_summary) list" where
  "calculate_click_rates df =
     map (\<lambda>g. let xs = map clicked (filter (\<lambda>r. group r = g) df)
              in (g, \<lparr>count = int (length xs), clicks = sum_list xs,
                      ctr = round4 (of_int (sum_list xs) / of_int (int (length xs)))\<rparr>))
         (sort (remdups (map group df)))"

section \<open>The random generator\<close>

text \<open>
  NumPy's global generator is a state that \<open>numpy.random.seed\<close> sets and every draw
  reads and advances. Its sampling algorithms are parameters: each takes the state and
  returns the value drawn with the next state. The functions that draw take the state
  they find and return the one they leave.
\<close>

record 'g np_random =
  rng_seed :: "int \<Rightarrow> 'g"
  rng_choice :: "'g \<Rightarrow> string list \<Rightarrow> nat \<Rightarrow> string list \<times> 'g"
  rng_binomial :: "'g \<Rightarrow> int \<Rightarrow> real \<Rightarrow> int \<times> 'g"
  rng_randint :: "'g \<Rightarrow> int \<Rightarrow> int \<Rightarrow> int \<times> 'g"

text \<open>\<open>numpy.random.binomial(n, p)\<close> raises \<open>ValueError\<close> for \<open>n < 0\<close> or \<open>p\<close> outside [0, 1].\<close>

definition np_binomial :: "'g np_random \<Rightarrow> 'g \<Rightarrow> int \<Rightarrow> real \<Rightarrow> error + (int \<times> 'g)" where
  "np_binomial rng g n p =
     (if n < 0 \<or> p < 0 \<or> 1 < p then Inl ValueError else Inr (rng_binomial rng g n p))"

section \<open>The power simulation\<close>

record power_estimate =
  power :: real
  n_simulations :: int
  significant_detections :: int

text \<open>
  The loop of \<open>manual_power_analysis\<close>, with the number of rounds left, the generator
  state and the counter \<open>significant_results\<close>.
\<close>

fun simulate ::
  "'g np_random \<Rightarrow> (real \<Rightarrow> nat \<Rightarrow> real) \<Rightarrow> real \<Rightarrow> real \<Rightarrow> int \<Rightarrow> real \<Rightarrow>
   nat \<Rightarrow> 'g \<Rightarrow> int \<Rightarrow> error + (int \<times> 'g)" where
  "simulate rng sf control_ctr treatment_ctr sample_size alpha 0 g significant_results =
     Inr (significant_results, g)"
| "simulate rng sf control_ctr treatment_ctr sample_size alpha (Suc k) g significant_results =
     and_then (np_binomial rng g sample_size control_ctr) (\<lambda>(control_clicks, g1).
     and_then (np_binomial rng g1 sample_size treatment_ctr) (\<lambda>(treatment_clicks, g2).
     let control_no_clicks = sample_size - control_clicks;
         treatment_no_clicks = sample_size - treatment_clicks;
         contingency_table = [[control_clicks, control_no_clicks],
                              [treatment_clicks, treatment_no_clicks]]
     in and_then (chi2_contingency sf contingency_table) (\<lambda>(_, p_value, _, _).
          simulate rng sf control_ctr treatment_ctr sample_size alpha k g2
            (if fless p_value (Fin alpha) then significant_results + 1
             else significant_results))))"

definition manual_power_analysis ::
  "'g np_random \<Rightarrow> (real \<Rightarrow> nat \<Rightarrow> real) \<Rightarrow> real \<Rightarrow> real \<Rightarrow> int \<Rightarrow> real \<Rightarrow> int \<Rightarrow> 'g \<Rightarrow>
   error + (power_estimate \<times> 'g)" where
  "manual_power_analysis rng sf control_ctr treatment_ctr sample_size alpha n_simulations' g =
     and_then (simulate rng sf control_ctr treatment_ctr sample_size alpha (nat n_simulations') g 0)
       (\<lambda>(significant_results, g').
          if n_simulations' = 0 then Inl ZeroDivisionError
          else Inr (\<lparr>power = real_of_int significant_results / real_of_int n_simulations',
                     n_simulations = n_simulations',
                     significant_detections = significant_results\<rparr>, g'))"

text \<open>
  The trials as the specification words them: the pairs of successes drawn in turn from
  the generator, and the test of one pair's table of successes and failures.
\<close>

fun trial_draws :: "'g np_random \<Rightarrow> real \<Rightarrow> real \<Rightarrow> int \<Rightarrow> nat \<Rightarrow> 'g \<Rightarrow> (int \<times> int) list \<times> 'g" where
  "trial_draws rng control_rate treatment_rate sample_size 0 g = ([], g)"
| "trial_draws rng control_rate treatment_rate sample_size (Suc k) g =
     (case rng_binomial rng g sample_size control_rate of (control_successes, g1) \<Rightarrow>
      case rng_binomial rng g1 sample_size treatment_rate of (treatment_successes, g2) \<Rightarrow>
      case trial_draws rng control_rate treatment_rate sample_size k g2 of (rest, g3) \<Rightarrow>
        ((control_successes, treatment_successes) # rest, g3))"

text \<open>
  The pairs whose table the test refuses: a draw outside \<open>0 .. sample_size\<close> gives a
  negative cell, and two draws that are both 0 or both \<open>sample_size\<close> give a column
  that sums to zero.
\<close>

definition refused :: "int \<Rightarrow> int \<times> int \<Rightarrow> bool" where
  "refused sample_size t =
     (case t of (x, y) \<Rightarrow>
        x < 0 \<or> sample_size < x \<or> y < 0 \<or> sample_size < y
        \<or> (x = 0 \<and> y = 0) \<or> (x = sample_size \<and> y = sample_size))"

definition detected :: "(real \<Rightarrow> nat \<Rightarrow> real) \<Rightarrow> int \<Rightarrow> real \<Rightarrow> int \<times> int \<Rightarrow> bool" where
  "detected sf sample_size alpha t =
     (case t of (x, y) \<Rightarrow>
        sf (yates_statistic x (sample_size - x) y (sample_size - y)) 1 < alpha)"

section \<open>The generated A/B-test data\<close>

text \<open>
  A generated row: the observation with its user id and its timestamp, the latter
  counted in hours from the start date, 1 January 2024, 00:00.
\<close>

record ab_row = observation +
  user_id :: string
  timestamp :: int

text \<open>The decimal numeral of a number, and Python's format \<open>06d\<close>: zeros in front up to six digits.\<close>

fun dec :: "nat \<Rightarrow> string" where
  "dec n = (if n < 10 then [char_of (48 + n)] else dec (n div 10) @ [char_of (48 + n mod 10)])"

definition format_06d :: "nat \<Rightarrow> string" where
  "format_06d i = replicate (6 - length (dec i)) (CHR ''0'') @ dec i"

fun gen_clicks ::
  "'g np_random \<Rightarrow> real \<Rightarrow> real \<Rightarrow> string list \<Rightarrow> 'g \<Rightarrow> error + (int list \<times> 'g)" where
  "gen_clicks rng control_ctr treatment_ctr [] g = Inr ([], g)"
| "gen_clicks rng control_ctr treatment_ctr (grp # groups) g =
     and_then (if grp = ''control'' then np_binomial rng g 1 control_ctr
               else np_binomial rng g 1 treatment_ctr) (\<lambda>(click, g1).
     and_then (gen_clicks rng control_ctr treatment_ctr groups g1) (\<lambda>(clicks, g2).
       Inr (click # clicks, g2)))"

fun gen_timestamps :: "'g np_random \<Rightarrow> nat \<Rightarrow> 'g \<Rightarrow> int list \<times> 'g" where
  "gen_timestamps rng 0 g = ([], g)"
| "gen_timestamps rng (Suc n) g =
     (case rng_randint rng g 0 7 of (random_days, g1) \<Rightarrow>
      case rng_randint rng g1 0 24 of (random_hours, g2) \<Rightarrow>
      case gen_timestamps rng n g2 of (timestamps, g3) \<Rightarrow>
        ((24 * random_days + random_hours) # timestamps, g3))"

text \<open>
  \<open>numpy.random.choice\<close> refuses a negative size, and the data frame refuses columns
  of different lengths, both with \<open>ValueError\<close>.
\<close>

definition generate_ab_test_data ::
  "'g np_random \<Rightarrow> real \<Rightarrow> real \<Rightarrow> int \<Rightarrow> 'g \<Rightarrow> error + (ab_row list \<times> 'g)" where
  "generate_ab_test_data rng control_ctr treatment_ctr n_users g =
     (let g0 = rng_seed rng 42;
          user_ids = map (\<lambda>i. ''user_'' @ format_06d i) [0 ..< nat n_users]
      in if n_users < 0 then Inl ValueError
         else case rng_choice rng g0 [''control'', ''treatment''] (nat n_users) of (groups, g1) \<Rightarrow>
           and_then (gen_clicks rng control_ctr treatment_ctr groups g1) (\<lambda>(clicks, g2).
             case gen_timestamps rng (nat n_users) g2 of (timestamps, g3) \<Rightarrow>
               if length groups \<noteq> length user_ids then Inl ValueError
               else Inr (map (\<lambda>(u, t, grp, c).
                               \<lparr>group = grp, clicked = c, user_id = u, timestamp = t\<rparr>)
                             (zip user_ids (zip timestamps (zip groups clicks))), g3)))"

text \<open>
  A small generator for examples: the state is a counter, and each draw returns a value
  computed from the counter and advances it. As a binomial draw must, it gives 0
  successes at rate 0 and \<open>n\<close> at rate 1.
\<close>

definition counter_rng :: "nat np_random" where
  "counter_rng =
     \<lparr>rng_seed = (\<lambda>s. nat s),
      rng_choice = (\<lambda>g labels n.
         (map (\<lambda>i. labels ! ((g + i) mod length labels)) [0 ..< n], g + n)),
      rng_binomial = (\<lambda>g n p.
         (if p = 0 then 0 else if p = 1 then n
          else [1, n - 1, n div 2, n div 2] ! (g mod 4), g + 1)),
      rng_randint = (\<lambda>g lo hi. (lo + int g mod (hi - lo), g + 1))\<rparr>"

section \<open>Cleaning the user-behaviour data\<close>

text \<open>
  A row of the user-behaviour table with the column that \<open>clean_data\<close> reads,
  \<open>read_time\<close>; the other columns are the rest of the record. The data frame is the
  list of its rows, each with its index label.
\<close>

record behavior_row =
  read_time :: flt

text \<open>
  \<open>DataFrame.drop_duplicates()\<close>: of the rows that agree in every column, the first is
  kept; the index labels are not compared.
\<close>

fun drop_duplicates :: "(nat \<times> 'r) list \<Rightarrow> (nat \<times> 'r) list" where
  "drop_duplicates [] = []"
| "drop_duplicates (x # xs) = x # drop_duplicates (filter (\<lambda>y. snd y \<noteq> snd x) xs)"

definition clean_data ::
  "(nat \<times> 'a behavior_row_scheme) list \<Rightarrow> (nat \<times> 'a behavior_row_scheme) list" where
  "clean_data df =
     (let df_clean = drop_duplicates df
      in filter (\<lambda>(i, r). fless (Fin 0) (read_time r)) df_clean)"

section \<open>Properties of the chi-square test\<close>

lemma yates_Fin: "yates (Fin x) (Fin e) = Fin (x + min (1 / 2) \<bar>e - x\<bar> * sgn (e - x))"
  by (simp add: yates_def fsub_def Let_def)

lemma yates_square:
  fixes x e :: real
  shows "(x + min (1 / 2) \<bar>e - x\<bar> * sgn (e - x) - e)\<^sup>2 = (\<bar>x - e\<bar> - min (1 / 2) \<bar>x - e\<bar>)\<^sup>2"
proof (cases "x \<le> e")
  case True
  then have "x + min (1 / 2) \<bar>e - x\<bar> * sgn (e - x) - e = - (\<bar>x - e\<bar> - min (1 / 2) \<bar>x - e\<bar>)"
    by (cases "x = e") (simp_all add: sgn_if)
  then show ?thesis by (simp only: power2_minus)
next
  case False
  then have "x + min (1 / 2) \<bar>e - x\<bar> * sgn (e - x) - e = \<bar>x - e\<bar> - min (1 / 2) \<bar>x - e\<bar>"
    by (simp add: sgn_if abs_minus_commute)
  then show ?thesis by simp
qed

lemma cell_term:
  "e \<noteq> 0 \<Longrightarrow>
   fdiv (fmul (fsub (yates (Fin x) (Fin e)) (Fin e)) (fsub (yates (Fin x) (Fin e)) (Fin e))) (Fin e)
     = Fin ((\<bar>x - e\<bar> - min (1 / 2) \<bar>x - e\<bar>)\<^sup>2 / e)"
  using yates_square [of x e]
  by (simp add: yates_Fin fsub_def power2_eq_square)

lemma expected_freq_2x2:
  assumes "a + b + c + d \<noteq> 0"
  shows "expected_freq [[a, b], [c, d]] =
           map (map Fin)
             [[real_of_int ((a + b) * (a + c)) / real_of_int (a + b + c + d),
               real_of_int ((a + b) * (b + d)) / real_of_int (a + b + c + d)],
              [real_of_int ((c + d) * (a + c)) / real_of_int (a + b + c + d),
               real_of_int ((c + d) * (b + d)) / real_of_int (a + b + c + d)]]"
  using assms by (simp add: expected_freq_def margins_def add.assoc)

lemma chi2_contingency_2x2:
  assumes nn: "0 \<le> a" "0 \<le> b" "0 \<le> c" "0 \<le> d"
    and pos: "0 < a + b" "0 < c + d" "0 < a + c" "0 < b + d"
  shows "chi2_contingency sf [[a, b], [c, d]] =
           Inr (Fin (yates_statistic a b c d), Fin (sf (yates_statistic a b c d) 1), 1,
                expected_freq [[a, b], [c, d]])"
proof -
  have n: "a + b + c + d \<noteq> 0" "a + b \<noteq> 0" "c + d \<noteq> 0" "a + c \<noteq> 0" "b + d \<noteq> 0"
    using nn pos by linarith+
  note ex = expected_freq_2x2 [OF n(1)]
  have e0: "real_of_int ((a + b) * (a + c)) / real_of_int (a + b + c + d) \<noteq> 0"
     "real_of_int ((a + b) * (b + d)) / real_of_int (a + b + c + d) \<noteq> 0"
     "real_of_int ((c + d) * (a + c)) / real_of_int (a + b + c + d) \<noteq> 0"
     "real_of_int ((c + d) * (b + d)) / real_of_int (a + b + c + d) \<noteq> 0"
    using n by simp_all
  have pd: "power_divergence (map2 (map2 yates) (map (map (\<lambda>x. Fin (of_int x))) [[a, b], [c, d]])
                (expected_freq [[a, b], [c, d]])) (expected_freq [[a, b], [c, d]])
            = Fin (yates_statistic a b c d)"
    unfolding ex
    by (simp add: power_divergence_def cell_term [OF e0(1)] cell_term [OF e0(2)]
        cell_term [OF e0(3)] cell_term [OF e0(4)] yates_statistic_def expected_cells_def Let_def
        del: of_int_mult of_int_add)
  show ?thesis
    using nn n pd unfolding chi2_contingency_def ex by (simp add: Let_def)
qed

lemma crosstab_2x2:
  assumes "crosstab df = [[a, b], [c, d]]"
  shows "0 \<le> a \<and> 0 \<le> b \<and> 0 \<le> c \<and> 0 \<le> d \<and> 0 < a + b \<and> 0 < c + d \<and> 0 < a + c \<and> 0 < b + d"
proof -
  define index where "index = sort (remdups (map group df))"
  define columns where "columns = sort (remdups (map clicked df))"
  define cnt where "cnt g k = int (length (filter (\<lambda>r. group r = g \<and> clicked r = k) df))" for g k
  have "map (\<lambda>g. map (cnt g) columns) index = [[a, b], [c, d]]"
    using assms by (simp add: crosstab_def index_def columns_def cnt_def [abs_def] Let_def)
  then obtain g1 g2 where idx: "index = [g1, g2]"
    and r1: "map (cnt g1) columns = [a, b]" and r2: "map (cnt g2) columns = [c, d]"
    by (auto simp: map_eq_Cons_conv)
  from r1 obtain k1 k2 where cols: "columns = [k1, k2]" and ab: "a = cnt g1 k1" "b = cnt g1 k2"
    by (auto simp: map_eq_Cons_conv)
  from r2 cols have cd: "c = cnt g2 k1" "d = cnt g2 k2" by auto
  have si: "set index = group ` set df" by (simp add: index_def)
  have sc: "set columns = clicked ` set df" by (simp add: columns_def)
  have nonneg: "0 \<le> cnt g k" for g k by (simp add: cnt_def)
  have hit: "0 < cnt (group r) (clicked r)" if "r \<in> set df" for r
    using that by (auto simp: cnt_def filter_empty_conv)
  have row: "0 < cnt g k1 + cnt g k2" if "g \<in> set index" for g
  proof -
    from that si obtain r where r: "r \<in> set df" "group r = g" by auto
    then have "clicked r \<in> set columns" using sc by auto
    then have "clicked r = k1 \<or> clicked r = k2" using cols by auto
    then show ?thesis using hit [OF r(1)] r(2) nonneg [of g k1] nonneg [of g k2] by auto
  qed
  have col: "0 < cnt g1 k + cnt g2 k" if "k \<in> set columns" for k
  proof -
    from that sc obtain r where r: "r \<in> set df" "clicked r = k" by auto
    then have "group r \<in> set index" using si by auto
    then have "group r = g1 \<or> group r = g2" using idx by auto
    then show ?thesis using hit [OF r(1)] r(2) nonneg [of g1 k] nonneg [of g2 k] by auto
  qed
  show ?thesis
    using row [of g1] row [of g2] col [of k1] col [of k2] nonneg idx cols ab cd by simp
qed

lemma yates_term_zero:
  fixes x e :: real
  shows "e \<noteq> 0 \<Longrightarrow> ((\<bar>x - e\<bar> - min (1 / 2) \<bar>x - e\<bar>)\<^sup>2 / e = 0) = (\<bar>x - e\<bar> \<le> 1 / 2)"
  by (auto simp: min_def)

lemma yates_statistic_nonneg:
  assumes "0 \<le> a" "0 \<le> b" "0 \<le> c" "0 \<le> d"
  shows "0 \<le> yates_statistic a b c d"
  using assms by (simp add: yates_statistic_def expected_cells_def Let_def)

lemma yates_statistic_zero:
  assumes nn: "0 \<le> a" "0 \<le> b" "0 \<le> c" "0 \<le> d"
    and pos: "0 < a + b" "0 < c + d" "0 < a + c" "0 < b + d"
  shows "(yates_statistic a b c d = 0) = (\<forall>(obs, ex) \<in> set (expected_cells a b c d). \<bar>obs - ex\<bar> \<le> 1 / 2)"
proof -
  define n where "n = real_of_int (a + b + c + d)"
  define e1 where "e1 = real_of_int ((a + b) * (a + c)) / n"
  define e2 where "e2 = real_of_int ((a + b) * (b + d)) / n"
  define e3 where "e3 = real_of_int ((c + d) * (a + c)) / n"
  define e4 where "e4 = real_of_int ((c + d) * (b + d)) / n"
  define t where "t x e = (\<bar>x - e\<bar> - min (1 / 2) \<bar>x - e\<bar>)\<^sup>2 / e" for x e :: real
  have npos: "0 < n" using nn pos by (simp add: n_def)
  have epos: "0 < e1" "0 < e2" "0 < e3" "0 < e4"
    using npos pos unfolding e1_def e2_def e3_def e4_def by simp_all
  have tnn: "0 \<le> t x e" if "0 < e" for x e using that by (simp add: t_def)
  have tz: "(t x e = 0) = (\<bar>x - e\<bar> \<le> 1 / 2)" if "0 < e" for x e
    using that yates_term_zero [of e x] by (simp add: t_def)
  have stat: "yates_statistic a b c d = t a e1 + t b e2 + t c e3 + t d e4"
    by (simp add: yates_statistic_def expected_cells_def Let_def t_def e1_def e2_def e3_def e4_def n_def)
  have cells: "expected_cells a b c d = [(real_of_int a, e1), (real_of_int b, e2), (real_of_int c, e3), (real_of_int d, e4)]"
    by (simp add: expected_cells_def Let_def e1_def e2_def e3_def e4_def n_def)
  have "(t a e1 + t b e2 + t c e3 + t d e4 = 0) = (t a e1 = 0 \<and> t b e2 = 0 \<and> t c e3 = 0 \<and> t d e4 = 0)"
    using tnn [OF epos(1), of a] tnn [OF epos(2), of b] tnn [OF epos(3), of c] tnn [OF epos(4), of d]
    by linarith
  then show ?thesis
    unfolding stat cells by (simp add: tz epos)
qed

lemma chi2_contingency_zero_column:
  assumes nn: "0 \<le> a" "0 \<le> b" "0 \<le> c" "0 \<le> d"
    and tot: "0 < a + b + c + d"
    and col: "a + c = 0 \<or> b + d = 0"
  shows "chi2_contingency sf [[a, b], [c, d]] = Inl ValueError"
proof -
  have n: "a + b + c + d \<noteq> 0" using tot by simp
  have "\<exists>row \<in> set (expected_freq [[a, b], [c, d]]). \<exists>e \<in> set row. e = Fin 0"
    using col n by (auto simp add: expected_freq_def margins_def add.assoc)
  moreover have "\<not> (\<exists>row \<in> set [[a, b], [c, d]]. \<exists>x \<in> set row. x < 0)"
    using nn by auto
  ultimately show ?thesis
    unfolding chi2_contingency_def by (simp add: Let_def)
qed

lemma chi2_contingency_negative:
  assumes "a < 0 \<or> b < 0 \<or> c < 0 \<or> d < 0"
  shows "chi2_contingency sf [[a, b], [c, d]] = Inl ValueError"
  using assms unfolding chi2_contingency_def by auto

lemma trial_p_value:
  assumes ss: "0 < ss"
  shows "chi2_contingency sf [[x, ss - x], [y, ss - y]] =
           (if refused ss (x, y) then Inl ValueError
            else Inr (Fin (yates_statistic x (ss - x) y (ss - y)),
                      Fin (sf (yates_statistic x (ss - x) y (ss - y)) 1), 1,
                      expected_freq [[x, ss - x], [y, ss - y]]))"
proof (cases "refused ss (x, y)")
  case True
  show ?thesis
  proof (cases "x < 0 \<or> ss < x \<or> y < 0 \<or> ss < y")
    case True
    then have "x < 0 \<or> ss - x < 0 \<or> y < 0 \<or> ss - y < 0" by auto
    from chi2_contingency_negative [OF this] \<open>refused ss (x, y)\<close> show ?thesis by simp
  next
    case False
    with True have col: "x + y = 0 \<or> (ss - x) + (ss - y) = 0"
      by (auto simp: refused_def)
    from False have nn: "0 \<le> x" "0 \<le> ss - x" "0 \<le> y" "0 \<le> ss - y" by auto
    have tot: "0 < x + (ss - x) + y + (ss - y)" using ss by simp
    from chi2_contingency_zero_column [OF nn tot col] True show ?thesis by simp
  qed
next
  case False
  then have nn: "0 \<le> x" "0 \<le> ss - x" "0 \<le> y" "0 \<le> ss - y"
    and pos: "0 < x + (ss - x)" "0 < y + (ss - y)" "0 < x + y" "0 < (ss - x) + (ss - y)"
    using ss by (auto simp: refused_def)
  have "chi2_contingency sf [[x, ss - x], [y, ss - y]] = Inr (Fin (yates_statistic x (ss - x) y (ss - y)),
                      Fin (sf (yates_statistic x (ss - x) y (ss - y)) 1), 1,
                      expected_freq [[x, ss - x], [y, ss - y]])"
    using chi2_contingency_2x2 [OF nn pos, of sf] .
  with False show ?thesis by simp
qed

lemma chi_square_test_2x2:
  assumes "crosstab df = [[a, b], [c, d]]"
  shows "chi_square_test sf df =
           Inr \<lparr>chi2_statistic = Fin (yates_statistic a b c d),
                p_value = Fin (sf (yates_statistic a b c d) 1),
                degrees_of_freedom = 1,
                expected_frequencies = expected_freq [[a, b], [c, d]]\<rparr>
         \<and> concat (expected_freq [[a, b], [c, d]]) = map (Fin \<circ> snd) (expected_cells a b c d)
         \<and> 0 \<le> a \<and> 0 \<le> b \<and> 0 \<le> c \<and> 0 \<le> d
         \<and> 0 < a + b \<and> 0 < c + d \<and> 0 < a + c \<and> 0 < b + d"
proof -
  from crosstab_2x2 [OF assms]
  have nn: "0 \<le> a" "0 \<le> b" "0 \<le> c" "0 \<le> d"
    and pos: "0 < a + b" "0 < c + d" "0 < a + c" "0 < b + d"
    by simp_all
  have n: "a + b + c + d \<noteq> 0" using nn pos by linarith
  have "concat (expected_freq [[a, b], [c, d]]) = map (Fin \<circ> snd) (expected_cells a b c d)"
    by (simp add: expected_freq_2x2 [OF n] expected_cells_def Let_def)
  moreover have "chi_square_test sf df =
           Inr \<lparr>chi2_statistic = Fin (yates_statistic a b c d),
                p_value = Fin (sf (yates_statistic a b c d) 1),
                degrees_of_freedom = 1,
                expected_frequencies = expected_freq [[a, b], [c, d]]\<rparr>"
    by (simp add: chi_square_test_def assms chi2_contingency_2x2 [OF nn pos])
  ultimately show ?thesis using nn pos by simp
qed

text \<open>
  Claim C1, as the code has it. \<open>chi_square_test\<close> calls \<open>chi2_contingency\<close> with its
  defaults, so on a 2x2 table Yates' correction for continuity is applied: the statistic
  returned is the sum over the four cells of
  \<open>(|observed - expected| - min(1/2, |observed - expected|))\<^sup>2 / expected\<close>, with
  \<open>expected[i][j] = row_total[i] * col_total[j] / grand_total\<close>. A 2x2 table that
  \<open>crosstab\<close> builds has non-negative cells and positive row and column totals.
\<close>

theorem chi_square_test_yates:
  assumes "crosstab df = [[a, b], [c, d]]"
  shows "\<exists>r. chi_square_test sf df = Inr r
           \<and> chi2_statistic r = Fin (yates_statistic a b c d)
           \<and> concat (expected_frequencies r) = map (Fin \<circ> snd) (expected_cells a b c d)"
  using chi_square_test_2x2 [OF assms, of sf] by simp

text \<open>
  The theorem at six observations, whose table is \<open>[[2, 1], [0, 3]]\<close>: every cell is 1
  away from its expected frequency, and the statistic is 3/4.
\<close>

theorem chi_square_test_yates_witness:
  "crosstab [\<lparr>group = ''control'', clicked = 0\<rparr>, \<lparr>group = ''treatment'', clicked = 1\<rparr>,
             \<lparr>group = ''control'', clicked = 0\<rparr>, \<lparr>group = ''treatment'', clicked = 1\<rparr>,
             \<lparr>group = ''control'', clicked = 1\<rparr>, \<lparr>group = ''treatment'', clicked = 1\<rparr>]
     = [[2, 1], [0, 3]]
   \<and> (\<exists>r. chi_square_test sf_table
             [\<lparr>group = ''control'', clicked = 0\<rparr>, \<lparr>group = ''treatment'', clicked = 1\<rparr>,
              \<lparr>group = ''control'', clicked = 0\<rparr>, \<lparr>group = ''treatment'', clicked = 1\<rparr>,
              \<lparr>group = ''control'', clicked = 1\<rparr>, \<lparr>group = ''treatment'', clicked = 1\<rparr>] = Inr r
          \<and> chi2_statistic r = Fin (3 / 4))"
proof -
  have c: "crosstab [\<lparr>group = ''control'', clicked = 0\<rparr>, \<lparr>group = ''treatment'', clicked = 1\<rparr>,
             \<lparr>group = ''control'', clicked = 0\<rparr>, \<lparr>group = ''treatment'', clicked = 1\<rparr>,
             \<lparr>group = ''control'', clicked = 1\<rparr>, \<lparr>group = ''treatment'', clicked = 1\<rparr>]
     = [[2, 1], [0, 3]]"
    by code_simp
  have y: "yates_statistic 2 1 0 3 = 3 / 4" by code_simp
  show ?thesis
    using chi_square_test_yates [OF c, of sf_table] unfolding y using c by blast
qed

text \<open>
  Against C1 as stated: on the table \<open>[[3, 0], [0, 3]]\<close> the statistic returned is
  8/3, while the uncorrected Pearson statistic of that table is 6.
\<close>

theorem chi_square_uncorrected_counterexample:
  "map_sum id chi2_statistic
     (chi_square_test sf_table
        [\<lparr>group = ''control'', clicked = 0\<rparr>, \<lparr>group = ''treatment'', clicked = 1\<rparr>,
         \<lparr>group = ''control'', clicked = 0\<rparr>, \<lparr>group = ''treatment'', clicked = 1\<rparr>,
         \<lparr>group = ''control'', clicked = 0\<rparr>, \<lparr>group = ''treatment'', clicked = 1\<rparr>])
     = Inr (Fin (8 / 3))
   \<and> crosstab
        [\<lparr>group = ''control'', clicked = 0\<rparr>, \<lparr>group = ''treatment'', clicked = 1\<rparr>,
         \<lparr>group = ''control'', clicked = 0\<rparr>, \<lparr>group = ''treatment'', clicked = 1\<rparr>,
         \<lparr>group = ''control'', clicked = 0\<rparr>, \<lparr>group = ''treatment'', clicked = 1\<rparr>]
     = [[3, 0], [0, 3]]
   \<and> pearson_statistic 3 0 0 3 = 6"
  by code_simp

text \<open>
  Claim C3, as the code has it. On every 2x2 table the statistic returned by
  \<open>chi_square_test\<close> is a non-negative finite number, and it is zero if and only if
  every observed count is within 1/2 of its expected frequency; proportional rows
  (observed equal to expected) are one such case, not the only one.
\<close>

theorem chi_square_statistic_zero:
  assumes "crosstab df = [[a, b], [c, d]]"
  shows "\<exists>r x. chi_square_test sf df = Inr r \<and> chi2_statistic r = Fin x \<and> 0 \<le> x
           \<and> (x = 0) = (\<forall>(obs, ex) \<in> set (expected_cells a b c d). \<bar>obs - ex\<bar> \<le> 1 / 2)
           \<and> concat (expected_frequencies r) = map (Fin \<circ> snd) (expected_cells a b c d)"
proof -
  from chi_square_test_2x2 [OF assms, of sf]
  have r: "chi_square_test sf df =
           Inr \<lparr>chi2_statistic = Fin (yates_statistic a b c d),
                p_value = Fin (sf (yates_statistic a b c d) 1),
                degrees_of_freedom = 1,
                expected_frequencies = expected_freq [[a, b], [c, d]]\<rparr>"
    and e: "concat (expected_freq [[a, b], [c, d]]) = map (Fin \<circ> snd) (expected_cells a b c d)"
    and nn: "0 \<le> a" "0 \<le> b" "0 \<le> c" "0 \<le> d"
    and pos: "0 < a + b" "0 < c + d" "0 < a + c" "0 < b + d"
    by simp_all
  show ?thesis
    using r e yates_statistic_nonneg [OF nn] yates_statistic_zero [OF nn pos] by simp
qed

text \<open>
  The theorem at the table \<open>[[2, 1], [1, 2]]\<close>: every expected frequency is 3/2, every
  cell is 1/2 away from it, and the statistic is zero.
\<close>

theorem chi_square_statistic_zero_witness:
  "\<exists>r. chi_square_test sf_table
         [\<lparr>group = ''control'', clicked = 0\<rparr>, \<lparr>group = ''treatment'', clicked = 1\<rparr>,
          \<lparr>group = ''control'', clicked = 1\<rparr>, \<lparr>group = ''treatment'', clicked = 0\<rparr>,
          \<lparr>group = ''control'', clicked = 0\<rparr>, \<lparr>group = ''treatment'', clicked = 1\<rparr>] = Inr r
       \<and> chi2_statistic r = Fin 0
       \<and> concat (expected_frequencies r) = [Fin (3 / 2), Fin (3 / 2), Fin (3 / 2), Fin (3 / 2)]"
proof -
  have c: "crosstab
         [\<lparr>group = ''control'', clicked = 0\<rparr>, \<lparr>group = ''treatment'', clicked = 1\<rparr>,
          \<lparr>group = ''control'', clicked = 1\<rparr>, \<lparr>group = ''treatment'', clicked = 0\<rparr>,
          \<lparr>group = ''control'', clicked = 0\<rparr>, \<lparr>group = ''treatment'', clicked = 1\<rparr>]
      = [[2, 1], [1, 2]]"
    by code_simp
  have cells: "expected_cells 2 1 1 2 = [(2, 3 / 2), (1, 3 / 2), (1, 3 / 2), (2, 3 / 2)]"
    by (simp add: expected_cells_def)
  have z: "\<forall>(obs, ex) \<in> set (expected_cells 2 1 1 2). \<bar>obs - ex\<bar> \<le> 1 / 2"
    unfolding cells by simp
  from chi_square_statistic_zero [OF c, of sf_table] z show ?thesis
    unfolding cells by auto
qed

text \<open>
  Against C3 as stated: on the table \<open>[[1, 0], [0, 1]]\<close> the statistic is zero although
  no observed count equals its expected frequency, which is 1/2 in every cell.
\<close>

theorem chi_square_zero_counterexample:
  "chi_square_test sf_table [\<lparr>group = ''control'', clicked = 0\<rparr>, \<lparr>group = ''treatment'', clicked = 1\<rparr>]
     = Inr \<lparr>chi2_statistic = Fin 0, p_value = Fin 1, degrees_of_freedom = 1,
            expected_frequencies = [[Fin (1 / 2), Fin (1 / 2)], [Fin (1 / 2), Fin (1 / 2)]]\<rparr>
   \<and> crosstab [\<lparr>group = ''control'', clicked = 0\<rparr>, \<lparr>group = ''treatment'', clicked = 1\<rparr>]
     = [[1, 0], [0, 1]]"
  by code_simp

section \<open>Properties of the confidence interval\<close>

lemma int64_bounds:
  assumes "int64 a" "int64 b" "b \<noteq> 0"
  shows "\<not> too_large (Fin (real_of_int a / real_of_int b))"
    and "a \<noteq> 0 \<Longrightarrow> \<not> rounds_to_zero (Fin (real_of_int a / real_of_int b))"
    and "\<not> too_large (Fin (real_of_int a))"
proof -
  have a: "\<bar>real_of_int a\<bar> \<le> 2 ^ 63"
  proof -
    from assms(1) have "\<bar>a\<bar> \<le> 2 ^ 63" unfolding int64_def by (simp add: abs_le_iff)
    then have "real_of_int \<bar>a\<bar> \<le> real_of_int (2 ^ 63)" by (rule of_int_le_iff [THEN iffD2])
    then show ?thesis by simp
  qed
  have b: "\<bar>real_of_int b\<bar> \<le> 2 ^ 63"
  proof -
    from assms(2) have "\<bar>b\<bar> \<le> 2 ^ 63" unfolding int64_def by (simp add: abs_le_iff)
    then have "real_of_int \<bar>b\<bar> \<le> real_of_int (2 ^ 63)" by (rule of_int_le_iff [THEN iffD2])
    then show ?thesis by simp
  qed
  have b1: "1 \<le> \<bar>real_of_int b\<bar>"
  proof -
    from assms(3) have "1 \<le> \<bar>b\<bar>" by simp
    then have "real_of_int 1 \<le> real_of_int \<bar>b\<bar>" by (rule of_int_le_iff [THEN iffD2])
    then show ?thesis by simp
  qed
  have big: "(2::real) ^ 63 < dbl_overflow" by (simp add: dbl_overflow_def)
  have small: "dbl_underflow < 1 / (2::real) ^ 63" by (simp add: dbl_underflow_def)
  have q: "\<bar>real_of_int a / real_of_int b\<bar> \<le> \<bar>real_of_int a\<bar>"
  proof -
    have "\<bar>real_of_int a\<bar> * 1 \<le> \<bar>real_of_int a\<bar> * \<bar>real_of_int b\<bar>"
      using b1 by (intro mult_left_mono) simp_all
    then show ?thesis using assms(3) by (simp add: divide_le_eq)
  qed
  show "\<not> too_large (Fin (real_of_int a / real_of_int b))"
    using q a big by simp
  show "\<not> too_large (Fin (real_of_int a))"
    using a big by simp
  show "\<not> rounds_to_zero (Fin (real_of_int a / real_of_int b))" if "a \<noteq> 0"
  proof -
    from that have "1 \<le> \<bar>a\<bar>" by simp
    then have "real_of_int 1 \<le> real_of_int \<bar>a\<bar>" by (rule of_int_le_iff [THEN iffD2])
    then have a1: "1 \<le> \<bar>real_of_int a\<bar>" by simp
    have "1 / 2 ^ 63 \<le> 1 / \<bar>real_of_int b\<bar>"
      using b b1 by (simp add: frac_le)
    also have "\<dots> \<le> \<bar>real_of_int a\<bar> / \<bar>real_of_int b\<bar>"
      using a1 b1 by (simp add: divide_right_mono)
    finally have "1 / 2 ^ 63 \<le> \<bar>real_of_int a / real_of_int b\<bar>"
      by (simp only: abs_divide)
    with small have "dbl_underflow < \<bar>real_of_int a / real_of_int b\<bar>"
      by (rule less_le_trans)
    then show ?thesis by (simp only: rounds_to_zero.simps not_le)
  qed
qed

lemma truediv_ints:
  assumes "int64 a" "int64 b" "b \<noteq> 0"
  shows "truediv (ka, Fin (real_of_int a)) (kb, Fin (real_of_int b)) =
           Inr (quot_kind ka kb, Fin (real_of_int a / real_of_int b))"
proof -
  note la = int64_bounds(3) [OF assms(1) assms(2) assms(3)]
  note lb = int64_bounds(3) [OF assms(2) assms(2) assms(3)]
  note lq = int64_bounds(1) [OF assms]
  have d: "fdiv (Fin (real_of_int a)) (Fin (real_of_int b)) = Fin (real_of_int a / real_of_int b)"
    using assms(3) by simp
  have z: "real_of_int a / real_of_int b = 0"
    if "rounds_to_zero (Fin (real_of_int a / real_of_int b))"
    using that int64_bounds(2) [OF assms] by (cases "a = 0") simp_all
  have nz: "Fin (real_of_int b) \<noteq> Fin 0" using assms(3) by simp
  show ?thesis
  proof (cases "ka = PyInt \<and> kb = PyInt")
    case True
    then show ?thesis
      unfolding truediv_def fst_conv snd_conv d using lq nz z
      by (simp add: quot_kind_def del: too_large.simps rounds_to_zero.simps)
  next
    case False
    then show ?thesis
      unfolding truediv_def fst_conv snd_conv d using la lb nz
      by (cases ka; cases kb) (simp_all add: quot_kind_def del: too_large.simps rounds_to_zero.simps)
  qed
qed

lemma truediv_float_int:
  assumes "k \<noteq> PyInt" "int64 b" "b \<noteq> 0"
  shows "truediv (k, Fin v) (kb, Fin (real_of_int b)) = Inr (quot_kind k kb, Fin (v / real_of_int b))"
  using assms int64_bounds(3) [OF assms(2) assms(2) assms(3)]
  by (simp add: truediv_def quot_kind_def del: too_large.simps)

lemma truediv_floats:
  assumes "k1 \<noteq> PyInt" "k2 \<noteq> PyInt"
  shows "truediv (k1, x) (k2, y) =
           (if k1 = PyFloat \<and> k2 = PyFloat \<and> y = Fin 0 then Inl ZeroDivisionError
            else Inr (quot_kind k1 k2, fdiv x y))"
  using assms by (cases k1; cases k2) (simp_all add: truediv_def quot_kind_def)

lemma quot_kind_not_int: "quot_kind k1 k2 \<noteq> PyInt"
  by (simp add: quot_kind_def)

lemma join_float: "k \<noteq> PyInt \<Longrightarrow> join PyInt k = k \<and> join k k = k"
  by (cases k) (simp_all add: join_def)

lemma join_not_int: "k1 \<noteq> PyInt \<Longrightarrow> join k1 k2 \<noteq> PyInt"
  by (cases k1; cases k2) (simp_all add: join_def)

lemma ci_any_kind:
  assumes r: "int64 ca" "int64 ta" "int64 cb" "int64 tb" and nz: "ta \<noteq> 0" "tb \<noteq> 0"
  shows "calculate_confidence_interval ppf (ka, Fin (real_of_int ca)) (kta, Fin (real_of_int ta))
           (kb, Fin (real_of_int cb)) (ktb, Fin (real_of_int tb)) alpha =
     (if ka \<noteq> Np \<and> kta \<noteq> Np \<and> kb \<noteq> Np \<and> ktb \<noteq> Np \<and> ca = 0 then Inl ZeroDivisionError
      else
        let p_a = real_of_int ca / real_of_int ta; p_b = real_of_int cb / real_of_int tb;
            margin = fmul (ppf (1 - alpha / 2))
                       (np_sqrt (Fin (p_a * (1 - p_a) / real_of_int ta + p_b * (1 - p_b) / real_of_int tb)))
        in Inr \<lparr>difference = Fin (p_b - p_a), ci_lower = fsub (Fin (p_b - p_a)) margin,
                ci_upper = fadd (Fin (p_b - p_a)) margin, margin_of_error = margin,
                relative_improvement = fdiv (Fin (p_b - p_a)) (Fin p_a)\<rparr>)"
proof -
  define qa where "qa = quot_kind ka kta"
  define qb where "qb = quot_kind kb ktb"
  define pa where "pa = real_of_int ca / real_of_int ta"
  define pb where "pb = real_of_int cb / real_of_int tb"
  have qa: "qa \<noteq> PyInt" and qb: "qb \<noteq> PyInt"
    by (simp_all add: qa_def qb_def quot_kind_not_int)
  have d1: "truediv (ka, Fin (real_of_int ca)) (kta, Fin (real_of_int ta)) = Inr (qa, Fin pa)"
    unfolding qa_def pa_def by (rule truediv_ints [OF r(1) r(2) nz(1)])
  have d2: "truediv (kb, Fin (real_of_int cb)) (ktb, Fin (real_of_int tb)) = Inr (qb, Fin pb)"
    unfolding qb_def pb_def by (rule truediv_ints [OF r(3) r(4) nz(2)])
  have m1: "nmul (qa, Fin pa) (nsub (py_int 1) (qa, Fin pa)) = (qa, Fin (pa * (1 - pa)))"
    using join_float [OF qa] by (simp add: nmul_def nsub_def py_int_def fsub_def)
  have m2: "nmul (qb, Fin pb) (nsub (py_int 1) (qb, Fin pb)) = (qb, Fin (pb * (1 - pb)))"
    using join_float [OF qb] by (simp add: nmul_def nsub_def py_int_def fsub_def)
  have d3: "truediv (qa, Fin (pa * (1 - pa))) (kta, Fin (real_of_int ta))
              = Inr (quot_kind qa kta, Fin (pa * (1 - pa) / real_of_int ta))"
    by (rule truediv_float_int [OF qa r(2) nz(1)])
  have d4: "truediv (qb, Fin (pb * (1 - pb))) (ktb, Fin (real_of_int tb))
              = Inr (quot_kind qb ktb, Fin (pb * (1 - pb) / real_of_int tb))"
    by (rule truediv_float_int [OF qb r(4) nz(2)])
  have s: "nsub (qb, Fin pb) (qa, Fin pa) = (join qb qa, Fin (pb - pa))"
    by (simp add: nsub_def fsub_def)
  have d5: "truediv (join qb qa, Fin (pb - pa)) (qa, Fin pa) =
              (if join qb qa = PyFloat \<and> qa = PyFloat \<and> Fin pa = Fin 0 then Inl ZeroDivisionError
               else Inr (quot_kind (join qb qa) qa, fdiv (Fin (pb - pa)) (Fin pa)))"
    by (rule truediv_floats [OF join_not_int [OF qb] qa])
  have c: "(join qb qa = PyFloat \<and> qa = PyFloat \<and> Fin pa = Fin 0) =
           (ka \<noteq> Np \<and> kta \<noteq> Np \<and> kb \<noteq> Np \<and> ktb \<noteq> Np \<and> ca = 0)"
    using nz(1) by (auto simp: qa_def qb_def pa_def quot_kind_def join_def)
  show ?thesis
    unfolding calculate_confidence_interval_def and_then_def d1 d2 sum.case Let_def m1 m2 d3 d4 s d5 c
    by (simp add: nadd_def pa_def pb_def)
qed

lemma truediv_int_zero: "truediv (PyInt, x) (PyInt, Fin 0) = Inl ZeroDivisionError"
  by (simp add: truediv_def)

lemma int64_small: "- 100 \<le> i \<Longrightarrow> i \<le> 100 \<Longrightarrow> int64 i"
  by (simp add: int64_def)

text \<open>
  Beyond the range of a float the function raises \<open>OverflowError\<close>: with both counts of
  the first group \<open>2^1024\<close> the control rate is 1, and dividing by the total fails.
\<close>

lemma ci_overflow:
  "calculate_confidence_interval ppf (py_int (2 ^ 1024)) (py_int (2 ^ 1024)) (py_int 1) (py_int 1) alpha
     = Inl OverflowError"
proof -
  have d1: "truediv (py_int (2 ^ 1024)) (py_int (2 ^ 1024)) = Inr (PyFloat, Fin 1)"
    by (simp add: truediv_def py_int_def dbl_overflow_def dbl_underflow_def)
  have d2: "truediv (py_int 1) (py_int 1) = Inr (PyFloat, Fin 1)"
    by (simp add: truediv_def py_int_def dbl_overflow_def dbl_underflow_def)
  have m: "nmul (PyFloat, Fin 1) (nsub (py_int 1) (PyFloat, Fin 1)) = (PyFloat, Fin 0)"
    by (simp add: nmul_def nsub_def py_int_def join_def fsub_def)
  have d3: "truediv (PyFloat, Fin 0) (py_int (2 ^ 1024)) = Inl OverflowError"
    by (simp add: truediv_def py_int_def dbl_overflow_def)
  show ?thesis
    unfolding calculate_confidence_interval_def and_then_def d1 d2 sum.case Let_def m d3 ..
qed



text \<open>
  Claim C2, as the code has it. For positive totals and counts in the 64-bit range,
  whatever the kinds of the four arguments: with a non-zero control rate
  \<open>calculate_confidence_interval\<close> returns \<open>relative_improvement = (p_b - p_a) / p_a\<close>.
  With a zero control rate it raises Python's \<open>ZeroDivisionError\<close> when no argument is
  a NumPy scalar; when one is, as with the NumPy click counts its callers pass, nothing
  is signalled and the bundle is returned with \<open>relative_improvement\<close> infinite, or NaN
  when the treatment rate is zero too.
\<close>

theorem relative_improvement_by_kind:
  assumes "0 < ta" "0 < tb" and r: "int64 ca" "int64 ta" "int64 cb" "int64 tb"
  shows "(ca \<noteq> 0 \<longrightarrow>
            (\<exists>r. calculate_confidence_interval ppf (ka, Fin (real_of_int ca)) (kta, Fin (real_of_int ta))
                    (kb, Fin (real_of_int cb)) (ktb, Fin (real_of_int tb)) alpha = Inr r
               \<and> relative_improvement r =
                   Fin ((real_of_int cb / real_of_int tb - real_of_int ca / real_of_int ta)
                        / (real_of_int ca / real_of_int ta))))
       \<and> (ca = 0 \<and> ka \<noteq> Np \<and> kta \<noteq> Np \<and> kb \<noteq> Np \<and> ktb \<noteq> Np \<longrightarrow>
            calculate_confidence_interval ppf (ka, Fin (real_of_int ca)) (kta, Fin (real_of_int ta))
              (kb, Fin (real_of_int cb)) (ktb, Fin (real_of_int tb)) alpha = Inl ZeroDivisionError)
       \<and> (ca = 0 \<and> (ka = Np \<or> kta = Np \<or> kb = Np \<or> ktb = Np) \<longrightarrow>
            (\<exists>r. calculate_confidence_interval ppf (ka, Fin (real_of_int ca)) (kta, Fin (real_of_int ta))
                    (kb, Fin (real_of_int cb)) (ktb, Fin (real_of_int tb)) alpha = Inr r
               \<and> relative_improvement r = (if cb = 0 then NaN else if 0 < cb then PInf else NInf)))"
proof -
  from assms(1,2) have nz: "ta \<noteq> 0" "tb \<noteq> 0" by simp_all
  note eq = ci_any_kind [OF r nz, of ppf ka kta kb ktb alpha]
  have sgn: "(0 < real_of_int cb / real_of_int tb) = (0 < cb)"
    using assms(2) by (simp add: zero_less_divide_iff)
  show ?thesis
  proof (intro conjI impI)
    assume "ca \<noteq> 0"
    then show "\<exists>r. calculate_confidence_interval ppf (ka, Fin (real_of_int ca)) (kta, Fin (real_of_int ta))
                    (kb, Fin (real_of_int cb)) (ktb, Fin (real_of_int tb)) alpha = Inr r
               \<and> relative_improvement r =
                   Fin ((real_of_int cb / real_of_int tb - real_of_int ca / real_of_int ta)
                        / (real_of_int ca / real_of_int ta))"
      unfolding eq using nz by (simp add: Let_def)
  next
    assume "ca = 0 \<and> ka \<noteq> Np \<and> kta \<noteq> Np \<and> kb \<noteq> Np \<and> ktb \<noteq> Np"
    then show "calculate_confidence_interval ppf (ka, Fin (real_of_int ca)) (kta, Fin (real_of_int ta))
              (kb, Fin (real_of_int cb)) (ktb, Fin (real_of_int tb)) alpha = Inl ZeroDivisionError"
      unfolding eq by simp
  next
    assume "ca = 0 \<and> (ka = Np \<or> kta = Np \<or> kb = Np \<or> ktb = Np)"
    then show "\<exists>r. calculate_confidence_interval ppf (ka, Fin (real_of_int ca)) (kta, Fin (real_of_int ta))
                    (kb, Fin (real_of_int cb)) (ktb, Fin (real_of_int tb)) alpha = Inr r
               \<and> relative_improvement r = (if cb = 0 then NaN else if 0 < cb then PInf else NInf)"
      unfolding eq using nz sgn by (auto simp add: Let_def)
  qed
qed

text \<open>
  The theorem at 5 users per group: 2 against 3 clicks as NumPy integers, no control
  clicks as Python integers, and no control clicks as NumPy integers.
\<close>

theorem relative_improvement_by_kind_witness:
  "(\<exists>r. calculate_confidence_interval ppf_table (np_int 2) (py_int 5) (np_int 3) (py_int 5) (5 / 100) = Inr r
        \<and> relative_improvement r = Fin (1 / 2))
   \<and> calculate_confidence_interval ppf_table (py_int 0) (py_int 5) (py_int 1) (py_int 5) (5 / 100)
       = Inl ZeroDivisionError
   \<and> (\<exists>r. calculate_confidence_interval ppf_table (np_int 0) (py_int 5) (np_int 1) (py_int 5) (5 / 100) = Inr r
        \<and> relative_improvement r = PInf)"
proof -
  have h: "(0::int) < 5" "int64 0" "int64 1" "int64 2" "int64 3" "int64 5"
    by (simp_all add: int64_small)
  show ?thesis
    using relative_improvement_by_kind [OF h(1) h(1) h(4) h(6) h(5) h(6), of ppf_table Np PyInt Np PyInt "5 / 100"]
          relative_improvement_by_kind [OF h(1) h(1) h(2) h(6) h(3) h(6), of ppf_table PyInt PyInt PyInt PyInt "5 / 100"]
          relative_improvement_by_kind [OF h(1) h(1) h(2) h(6) h(3) h(6), of ppf_table Np PyInt Np PyInt "5 / 100"]
    unfolding np_int_def py_int_def by simp
qed

text \<open>
  Against C2 as stated: with NumPy click counts 0 of 5 and 1 of 5, no error is raised
  and the bundle's \<open>relative_improvement\<close> is infinite.
\<close>

theorem relative_improvement_counterexample:
  "map_sum id relative_improvement
     (calculate_confidence_interval ppf_table (np_int 0) (py_int 5) (np_int 1) (py_int 5) (5 / 100))
   = Inr PInf"
proof -
  have h: "int64 0" "int64 1" "int64 5" "(5::int) \<noteq> 0"
    by (simp_all add: int64_small)
  show ?thesis
    unfolding np_int_def py_int_def ci_any_kind [OF h(1) h(3) h(2) h(3) h(4) h(4)]
    by (simp add: Let_def)
qed

text \<open>
  Claim C4, as the code has it. \<open>calculate_confidence_interval\<close> checks none of its
  arguments and has no \<open>InvalidInputError\<close>. With Python integers of the 64-bit range
  it raises \<open>ZeroDivisionError\<close> when a total or the control click count is zero, and
  for every other such input it returns a bundle: negative totals and any \<open>alpha\<close>
  included.
\<close>

theorem ci_no_validation:
  assumes "int64 ca" "int64 ta" "int64 cb" "int64 tb"
  shows "(ta = 0 \<or> tb = 0 \<or> ca = 0 \<longrightarrow>
      calculate_confidence_interval ppf (py_int ca) (py_int ta) (py_int cb) (py_int tb) alpha
        = Inl ZeroDivisionError)
   \<and> (ta \<noteq> 0 \<and> tb \<noteq> 0 \<and> ca \<noteq> 0 \<longrightarrow>
        (\<exists>r. calculate_confidence_interval ppf (py_int ca) (py_int ta) (py_int cb) (py_int tb) alpha
               = Inr r))"
proof (cases "ta = 0")
  case True
  then show ?thesis
    by (simp add: calculate_confidence_interval_def and_then_def py_int_def truediv_int_zero)
next
  case ta: False
  show ?thesis
  proof (cases "tb = 0")
    case True
    then show ?thesis
      using truediv_ints [OF assms(1) assms(2) ta, of PyInt PyInt]
      by (simp add: calculate_confidence_interval_def and_then_def py_int_def truediv_int_zero)
  next
    case False
    then show ?thesis
      unfolding py_int_def ci_any_kind [OF assms ta False] using ta by (simp add: Let_def)
  qed
qed

text \<open>The theorem at a zero total, and at a negative total with \<open>alpha = 2\<close>.\<close>

theorem ci_no_validation_witness:
  "calculate_confidence_interval ppf_table (py_int 1) (py_int 0) (py_int 1) (py_int 5) (5 / 100)
     = Inl ZeroDivisionError
   \<and> (\<exists>r. calculate_confidence_interval ppf_table (py_int 1) (py_int (- 5)) (py_int 1) (py_int 5) 2
          = Inr r)"
proof -
  have h: "int64 0" "int64 1" "int64 5" "int64 (- 5)"
    by (simp_all add: int64_small)
  show ?thesis
    using ci_no_validation [OF h(2) h(1) h(2) h(3), of ppf_table "5 / 100"]
          ci_no_validation [OF h(2) h(4) h(2) h(3), of ppf_table 2]
    by simp
qed

text \<open>
  Against C4 as stated: with both totals -5 and \<open>alpha = 2\<close> a bundle is returned, with
  difference 0.
\<close>

theorem ci_invalid_input_counterexample:
  "map_sum id difference
     (calculate_confidence_interval ppf_table (py_int 1) (py_int (- 5)) (py_int 1) (py_int (- 5)) 2)
   = Inr (Fin 0)"
proof -
  have h: "int64 1" "int64 (- 5)" "(- 5::int) \<noteq> 0"
    by (simp_all add: int64_small)
  show ?thesis
    unfolding py_int_def ci_any_kind [OF h(1) h(2) h(1) h(2) h(3) h(3)]
    by (simp add: Let_def)
qed




section \<open>Properties of the effect size\<close>

lemma np_arcsin_sqrt:
  "0 \<le> a \<Longrightarrow> a \<le> 1 \<Longrightarrow> np_arcsin (np_sqrt (Fin a)) = Fin (arcsin (sqrt a))"
proof -
  assume a: "0 \<le> a" "a \<le> 1"
  then have "0 \<le> sqrt a" "sqrt a \<le> 1" by simp_all
  then have "- 1 \<le> sqrt a \<and> sqrt a \<le> 1" by linarith
  with a show ?thesis by simp
qed

text \<open>
  Claim C8. For rates in [0, 1], \<open>calculate_effect_size\<close> gives the same value with its
  arguments swapped, gives 0 for two equal rates, and is the finite number
  \<open>|2 (arcsin (sqrt b) - arcsin (sqrt a))|\<close>.
\<close>

theorem effect_size_symmetric:
  assumes "0 \<le> a" "a \<le> 1" "0 \<le> b" "b \<le> 1"
  shows "calculate_effect_size (Fin a) (Fin b) = calculate_effect_size (Fin b) (Fin a)
       \<and> calculate_effect_size (Fin a) (Fin a) = Fin 0
       \<and> calculate_effect_size (Fin a) (Fin b) = Fin \<bar>2 * (arcsin (sqrt b) - arcsin (sqrt a))\<bar>"
  using assms by (simp add: calculate_effect_size_def np_arcsin_sqrt fsub_def Let_def del: np_sqrt.simps np_arcsin.simps)

text \<open>The theorem at the rates 0 and 1, where the effect size is \<open>pi\<close>.\<close>

theorem effect_size_symmetric_witness:
  "calculate_effect_size (Fin 0) (Fin 1) = calculate_effect_size (Fin 1) (Fin 0)
   \<and> calculate_effect_size (Fin 0) (Fin 0) = Fin 0
   \<and> calculate_effect_size (Fin 0) (Fin 1) = Fin pi"
proof -
  have pi: "\<bar>2 * (arcsin (sqrt 1) - arcsin (sqrt 0))\<bar> = pi" by simp
  have h: "(0::real) \<le> 0" "(0::real) \<le> 1" "(1::real) \<le> 1" by simp_all
  show ?thesis
    using effect_size_symmetric [OF h(1) h(2) h(2) h(3)] unfolding pi .
qed

section \<open>Properties of the click rates\<close>

text \<open>
  Claim C7, as the code has it. \<open>calculate_click_rates\<close> checks nothing and raises
  nothing: for every dataset it returns one summary for each group label that occurs,
  in sorted order, with the count (at least 1) and the clicks of that group. A dataset
  with one group gives one summary, the empty dataset none.
\<close>

theorem click_rates_groups:
  "map fst (calculate_click_rates df) = sort (remdups (map group df))
   \<and> (\<forall>(g, s) \<in> set (calculate_click_rates df).
         g \<in> group ` set df
       \<and> count s = int (length (filter (\<lambda>r. group r = g) df))
       \<and> 0 < count s
       \<and> clicks s = sum_list (map clicked (filter (\<lambda>r. group r = g) df)))"
proof
  show "map fst (calculate_click_rates df) = sort (remdups (map group df))"
    by (simp add: calculate_click_rates_def Let_def comp_def)
  have pos: "0 < length (filter (\<lambda>r. group r = g) df)" if "g \<in> group ` set df" for g
    using that by (auto simp: filter_empty_conv)
  show "\<forall>(g, s) \<in> set (calculate_click_rates df).
         g \<in> group ` set df
       \<and> count s = int (length (filter (\<lambda>r. group r = g) df))
       \<and> 0 < count s
       \<and> clicks s = sum_list (map clicked (filter (\<lambda>r. group r = g) df))"
    using pos by (auto simp: calculate_click_rates_def Let_def)
qed

text \<open>The theorem at a dataset with one group and at the empty dataset.\<close>

theorem click_rates_groups_witness:
  "map fst (calculate_click_rates [\<lparr>group = ''control'', clicked = 1\<rparr>]) = [''control'']
   \<and> map fst (calculate_click_rates ([] :: observation list)) = []"
  using click_rates_groups [of "[\<lparr>group = ''control'', clicked = 1\<rparr>]"]
        click_rates_groups [of "[] :: observation list"]
  by simp

text \<open>
  Against C7 as stated: a dataset whose only group label is \<open>control\<close> is not refused;
  the summary of that one group is returned.
\<close>

theorem click_rates_single_group_counterexample:
  "calculate_click_rates [\<lparr>group = ''control'', clicked = 1\<rparr>, \<lparr>group = ''control'', clicked = 0\<rparr>]
     = [(''control'', \<lparr>count = 2, clicks = 1, ctr = 1 / 2\<rparr>)]"
  by code_simp

section \<open>Properties of the power simulation\<close>

lemma np_binomial_ok:
  "0 \<le> n \<Longrightarrow> 0 \<le> p \<Longrightarrow> p \<le> 1 \<Longrightarrow> np_binomial rng g n p = Inr (rng_binomial rng g n p)"
  by (simp add: np_binomial_def)

lemma simulate_trials:
  assumes "0 \<le> cr" "cr \<le> 1" "0 \<le> tr" "tr \<le> 1" "0 < ss"
  shows "simulate rng sf cr tr ss alpha k g s =
           (case trial_draws rng cr tr ss k g of (ds, g') \<Rightarrow>
              if \<exists>t \<in> set ds. refused ss t then Inl ValueError
              else Inr (s + int (length (filter (detected sf ss alpha) ds)), g'))"
proof (induction k arbitrary: g s)
  case 0
  show ?case by simp
next
  case (Suc k)
  obtain x g1 where d1: "rng_binomial rng g ss cr = (x, g1)" by (cases "rng_binomial rng g ss cr")
  obtain y g2 where d2: "rng_binomial rng g1 ss tr = (y, g2)" by (cases "rng_binomial rng g1 ss tr")
  obtain ds g3 where d3: "trial_draws rng cr tr ss k g2 = (ds, g3)"
    by (cases "trial_draws rng cr tr ss k g2")
  have b1: "np_binomial rng g ss cr = Inr (x, g1)"
    using assms d1 by (simp add: np_binomial_ok)
  have b2: "np_binomial rng g1 ss tr = Inr (y, g2)"
    using assms d2 by (simp add: np_binomial_ok)
  show ?case
  proof (cases "refused ss (x, y)")
    case True
    then show ?thesis
      using trial_p_value [OF assms(5), of sf x y]
      by (simp add: b1 b2 d1 d2 d3 and_then_def)
  next
    case False
    then show ?thesis
      using trial_p_value [OF assms(5), of sf x y] Suc.IH [of g2]
      by (simp add: b1 b2 d1 d2 d3 and_then_def detected_def)
  qed
qed

lemma length_trial_draws: "length (fst (trial_draws rng cr tr ss k g)) = k"
proof (induction k arbitrary: g)
  case 0
  show ?case by simp
next
  case (Suc k)
  obtain x g1 where d1: "rng_binomial rng g ss cr = (x, g1)" by (cases "rng_binomial rng g ss cr")
  obtain y g2 where d2: "rng_binomial rng g1 ss tr = (y, g2)" by (cases "rng_binomial rng g1 ss tr")
  obtain ds g3 where d3: "trial_draws rng cr tr ss k g2 = (ds, g3)"
    by (cases "trial_draws rng cr tr ss k g2")
  show ?case using Suc.IH [of g2] by (simp add: d1 d2 d3)
qed

lemma simulate_invalid_rate:
  assumes "cr < 0 \<or> 1 < cr \<or> tr < 0 \<or> 1 < tr"
  shows "simulate rng sf cr tr ss alpha (Suc k) g s = Inl ValueError"
proof (cases "ss < 0 \<or> cr < 0 \<or> 1 < cr")
  case True
  then have "np_binomial rng g ss cr = Inl ValueError" by (simp add: np_binomial_def)
  then show ?thesis by (simp add: and_then_def)
next
  case False
  obtain x g1 where d1: "rng_binomial rng g ss cr = (x, g1)" by (cases "rng_binomial rng g ss cr")
  from False have "np_binomial rng g ss cr = Inr (x, g1)" by (simp add: np_binomial_def d1)
  moreover from False assms have "np_binomial rng g1 ss tr = Inl ValueError"
    by (auto simp add: np_binomial_def)
  ultimately show ?thesis by (simp add: and_then_def)
qed

text \<open>
  Claim C6, as the code has it. For a positive sample size and a positive number of
  simulations, let \<open>ds\<close> be the \<open>n_simulations\<close> pairs of successes drawn in turn from
  the generator. If both rates are in [0, 1] and the test refuses no pair's table,
  \<open>manual_power_analysis\<close> returns the number of simulations, the number of pairs whose
  p-value is below \<open>alpha\<close>, and their quotient as the power, and leaves the generator
  after the last draw. If a rate is outside [0, 1], or the test refuses the table of some
  pair (both success counts 0, or both equal to the sample size), the run raises
  \<open>ValueError\<close> and returns nothing.
\<close>

theorem power_simulation:
  assumes "0 < ss" "0 < n"
    and "trial_draws rng cr tr ss (nat n) g = (ds, g')"
  shows "length ds = nat n
       \<and> manual_power_analysis rng sf cr tr ss alpha n g =
           (if cr < 0 \<or> 1 < cr \<or> tr < 0 \<or> 1 < tr \<or> (\<exists>t \<in> set ds. refused ss t)
            then Inl ValueError
            else Inr (\<lparr>power = real (length (filter (detected sf ss alpha) ds)) / real_of_int n,
                       n_simulations = n,
                       significant_detections = int (length (filter (detected sf ss alpha) ds))\<rparr>,
                      g'))"
proof
  show "length ds = nat n"
    using length_trial_draws [of rng cr tr ss "nat n" g] assms(3) by simp
  show "manual_power_analysis rng sf cr tr ss alpha n g =
           (if cr < 0 \<or> 1 < cr \<or> tr < 0 \<or> 1 < tr \<or> (\<exists>t \<in> set ds. refused ss t)
            then Inl ValueError
            else Inr (\<lparr>power = real (length (filter (detected sf ss alpha) ds)) / real_of_int n,
                       n_simulations = n,
                       significant_detections = int (length (filter (detected sf ss alpha) ds))\<rparr>,
                      g'))"
  proof (cases "cr < 0 \<or> 1 < cr \<or> tr < 0 \<or> 1 < tr")
    case True
    from assms(2) obtain k where k: "nat n = Suc k" by (cases "nat n") simp_all
    have sim: "simulate rng sf cr tr ss alpha (nat n) g 0 = Inl ValueError"
      unfolding k by (rule simulate_invalid_rate [OF True])
    from True have c: "(cr < 0 \<or> 1 < cr \<or> tr < 0 \<or> 1 < tr \<or> (\<exists>t \<in> set ds. refused ss t)) = True"
      by blast
    show ?thesis
      unfolding c by (simp add: manual_power_analysis_def sim and_then_def)
  next
    case False
    then have r: "0 \<le> cr" "cr \<le> 1" "0 \<le> tr" "tr \<le> 1" by simp_all
    show ?thesis
      using False assms(2,3)
      by (simp add: manual_power_analysis_def simulate_trials [OF r assms(1)] and_then_def)
  qed
qed

text \<open>
  The theorem at sample size 10 and 4 simulations: the pairs drawn are (1, 9), (5, 5),
  (1, 9), (5, 5); the first and the third are detected, and the power is 1/2.
\<close>

theorem power_simulation_witness:
  "trial_draws counter_rng (8 / 100) (105 / 1000) 10 (nat 4) 0 = ([(1, 9), (5, 5), (1, 9), (5, 5)], 8)
   \<and> manual_power_analysis counter_rng sf_table (8 / 100) (105 / 1000) 10 (5 / 100) 4 0 =
       Inr (\<lparr>power = 1 / 2, n_simulations = 4, significant_detections = 2\<rparr>, 8)"
proof -
  have d: "trial_draws counter_rng (8 / 100) (105 / 1000) 10 (nat 4) 0 = ([(1, 9), (5, 5), (1, 9), (5, 5)], 8)"
    by code_simp
  have r: "\<not> (\<exists>t \<in> set [(1, 9), (5, 5), (1, 9), (5::int, 5::int)]. refused 10 t)"
    by (simp add: refused_def)
  have f: "filter (detected sf_table 10 (5 / 100)) [(1, 9), (5, 5), (1, 9), (5, 5)] = [(1, 9), (1, 9)]"
    by code_simp
  have h: "(0::int) < 10" "(0::int) < 4"
    by simp_all
  have v: "\<not> ((8 / 100 :: real) < 0 \<or> (1::real) < 8 / 100 \<or> (105 / 1000 :: real) < 0
              \<or> (1::real) < 105 / 1000)"
    by simp
  have "manual_power_analysis counter_rng sf_table (8 / 100) (105 / 1000) 10 (5 / 100) 4 0 =
       Inr (\<lparr>power = real (length [(1::int, 9::int), (1, 9)]) / real_of_int 4, n_simulations = 4,
              significant_detections = int (length [(1::int, 9::int), (1, 9)])\<rparr>, 8)"
    using power_simulation [OF h d, of sf_table "5 / 100"] v unfolding f
    by (simp only: r if_False simp_thms)
  then show ?thesis using d by simp
qed

text \<open>
  Against C6 as stated: with both rates 0, every draw is 0, the first table has a column
  of zeros, and the run raises \<open>ValueError\<close> in its first trial.
\<close>

theorem power_simulation_counterexample:
  "manual_power_analysis counter_rng sf_table 0 0 10 (5 / 100) 4 0 = Inl ValueError"
  by code_simp

section \<open>Properties of the data generator\<close>

text \<open>
  Claim C10. \<open>generate_ab_test_data\<close> seeds the generator with 42 before its first draw,
  so its result (the dataset, or the error, and the generator state it leaves) does not
  depend on the state it finds: two calls with the same arguments return the same.
\<close>

theorem generate_ab_test_data_reseeds:
  "generate_ab_test_data rng control_ctr treatment_ctr n_users g =
     generate_ab_test_data rng control_ctr treatment_ctr n_users g'"
  by (simp add: generate_ab_test_data_def)

text \<open>The theorem at three users, from the generator states 0 and 7.\<close>

theorem generate_ab_test_data_reseeds_witness:
  "generate_ab_test_data counter_rng (8 / 100) (105 / 1000) 3 0 =
     generate_ab_test_data counter_rng (8 / 100) (105 / 1000) 3 7"
  using generate_ab_test_data_reseeds [of counter_rng "8 / 100" "105 / 1000" 3 0 7] .

section \<open>Properties of the cleaning\<close>

lemma drop_duplicates_subset: "set (drop_duplicates xs) \<subseteq> set xs"
  by (induction xs rule: drop_duplicates.induct) auto

lemma rows_drop_duplicates: "snd ` set (drop_duplicates xs) = snd ` set xs"
proof (induction xs rule: drop_duplicates.induct)
  case 1
  show ?case by simp
next
  case (2 x xs)
  have "snd ` set (x # xs) = insert (snd x) (snd ` {y \<in> set xs. snd y \<noteq> snd x})"
    by auto
  with 2 show ?case by simp
qed

lemma distinct_drop_duplicates: "distinct (map snd (drop_duplicates xs))"
proof (induction xs rule: drop_duplicates.induct)
  case 1
  show ?case by simp
next
  case (2 x xs)
  have "snd x \<notin> snd ` set (drop_duplicates (filter (\<lambda>y. snd y \<noteq> snd x) xs))"
    unfolding rows_drop_duplicates by auto
  with 2 show ?case by simp
qed

lemma drop_duplicates_distinct: "distinct (map snd xs) \<Longrightarrow> drop_duplicates xs = xs"
proof (induction xs)
  case Nil
  show ?case by simp
next
  case (Cons x xs)
  then have "snd x \<notin> snd ` set xs" by simp
  then have "\<forall>y \<in> set xs. snd y \<noteq> snd x" by (metis imageI)
  then have "filter (\<lambda>y. snd y \<noteq> snd x) xs = xs"
    by (simp only: filter_id_conv)
  with Cons show ?case by simp
qed

text \<open>
  Claim C9. \<open>clean_data\<close> is idempotent. Its output has no two equal rows; its rows
  are exactly the rows of the input whose \<open>read_time\<close> is greater than 0; and each row
  of the output is a row of the input, with its index label and all its fields.
\<close>

theorem clean_data_idempotent:
  "clean_data (clean_data df) = clean_data df
   \<and> distinct (map snd (clean_data df))
   \<and> snd ` set (clean_data df) = {r \<in> snd ` set df. fless (Fin 0) (read_time r)}
   \<and> set (clean_data df) \<subseteq> set df"
proof (intro conjI)
  show d: "distinct (map snd (clean_data df))"
    unfolding clean_data_def Let_def
    by (rule distinct_map_filter) (rule distinct_drop_duplicates)
  show "clean_data (clean_data df) = clean_data df"
    using drop_duplicates_distinct [OF d] by (simp add: clean_data_def Let_def)
  have "snd ` set (clean_data df) = {r \<in> snd ` set (drop_duplicates df). fless (Fin 0) (read_time r)}"
    by (force simp: clean_data_def Let_def)
  then show "snd ` set (clean_data df) = {r \<in> snd ` set df. fless (Fin 0) (read_time r)}"
    by (simp only: rows_drop_duplicates)
  show "set (clean_data df) \<subseteq> set df"
    using drop_duplicates_subset [of df] by (auto simp: clean_data_def Let_def)
qed

text \<open>
  The theorem at five rows: one is a duplicate, one has a negative and one a missing
  \<open>read_time\<close>; two rows are kept, and cleaning them again changes nothing.
\<close>

theorem clean_data_idempotent_witness:
  "clean_data [(0, \<lparr>read_time = Fin 3\<rparr>), (1, \<lparr>read_time = Fin (- 1)\<rparr>), (2, \<lparr>read_time = Fin 3\<rparr>),
               (3, \<lparr>read_time = NaN\<rparr>), (4, \<lparr>read_time = Fin 2\<rparr>)]
     = [(0, \<lparr>read_time = Fin 3\<rparr>), (4, \<lparr>read_time = Fin 2\<rparr>)]
   \<and> clean_data [(0, \<lparr>read_time = Fin 3\<rparr>), (4, \<lparr>read_time = Fin 2\<rparr>)]
     = [(0, \<lparr>read_time = Fin 3\<rparr>), (4, \<lparr>read_time = Fin 2\<rparr>)]"
proof -
  have c: "clean_data [(0, \<lparr>read_time = Fin 3\<rparr>), (1, \<lparr>read_time = Fin (- 1)\<rparr>), (2, \<lparr>read_time = Fin 3\<rparr>),
               (3, \<lparr>read_time = NaN\<rparr>), (4, \<lparr>read_time = Fin 2\<rparr>)]
     = [(0, \<lparr>read_time = Fin 3\<rparr>), (4, \<lparr>read_time = Fin 2\<rparr>)]"
    by (simp add: clean_data_def)
  show ?thesis
    using clean_data_idempotent [of "[(0, \<lparr>read_time = Fin 3\<rparr>), (1, \<lparr>read_time = Fin (- 1)\<rparr>),
               (2, \<lparr>read_time = Fin 3\<rparr>), (3, \<lparr>read_time = NaN\<rparr>), (4, \<lparr>read_time = Fin 2\<rparr>)]"]
    unfolding c by simp
qed

end
